theory Spec2Isabelle
  imports Main "HOL-Library.Char_ord" "HOL-Library.List_Lexorder"
begin

section \<open>Runtime types as seen through reflection\<close>

text \<open>
  \<^verbatim>\<open>query.go\<close> inspects its inputs only through \<^verbatim>\<open>reflect.Type\<close>: the kind of a
  type, its element type, its name, its fields, and whether a pointer to it implements
  \<^verbatim>\<open>json.Unmarshaler\<close>. A type is modelled as the finite tree of exactly these
  observations.

  \<^item> \<open>Ptr t\<close>, \<open>Slice t\<close>, \<open>Array n t\<close>: kinds \<^verbatim>\<open>reflect.Ptr\<close>, \<^verbatim>\<open>reflect.Slice\<close>,
    \<^verbatim>\<open>reflect.Array\<close> with \<^verbatim>\<open>t.Elem()\<close> (and the array length).
  \<^item> \<open>Struct name unm fs\<close>: kind \<^verbatim>\<open>reflect.Struct\<close>; \<open>name\<close> is \<^verbatim>\<open>t.Name()\<close>
    (empty for an unnamed struct type), \<open>unm\<close> is
    \<^verbatim>\<open>reflect.PtrTo(t).Implements(jsonUnmarshaler)\<close>, \<open>fs\<close> are the fields
    \<^verbatim>\<open>t.Field(0)\<close> .. \<^verbatim>\<open>t.Field(t.NumField()-1)\<close>.
  \<^item> \<open>Basic name\<close>: every other kind (bool, the integers, floats, string, map, interface,
    func, chan, ...); \<open>name\<close> is \<^verbatim>\<open>t.Name()\<close>.

  A field carries \<^verbatim>\<open>f.Name\<close>, \<^verbatim>\<open>f.Type\<close>, \<^verbatim>\<open>f.Anonymous\<close> and the result of
  \<^verbatim>\<open>f.Tag.Lookup("graphql")\<close> (\<open>None\<close> when \<^verbatim>\<open>ok\<close> is false).

  Go types that refer to themselves (\<^verbatim>\<open>type N struct { Next *N }\<close>) are not finite
  trees and have no representation here; \<^verbatim>\<open>writeQuery\<close> does not return on them.
\<close>

datatype gotype =
    Ptr gotype
  | Slice gotype
  | Array nat gotype
  | Struct string bool "field list"
  | Basic string
and field =
    Field (Name: string) (Type: gotype) (Anonymous: bool) (Tag: "string option")

text \<open>
  An \<^verbatim>\<open>interface{}\<close> value is observed only through \<^verbatim>\<open>reflect.TypeOf\<close>, which is
  \<^verbatim>\<open>nil\<close> for the nil interface value: \<open>None\<close> is that value, \<open>Some t\<close> a value of
  dynamic type \<open>t\<close>.
\<close>

type_synonym val = "gotype option"

text \<open>
  \<^verbatim>\<open>map[string]interface{}\<close>: the entries in the order in which \<^verbatim>\<open>range\<close> happens
  to enumerate them. A Go map holds each key once, so a well-formed map has distinct keys.
  \<^verbatim>\<open>variables[k]\<close> yields the nil interface value for an absent key.
\<close>

type_synonym variables = "(string \<times> val) list"

definition index :: "variables \<Rightarrow> string \<Rightarrow> val" where
  "index variables k = (case map_of variables k of None \<Rightarrow> None | Some v \<Rightarrow> v)"

text \<open>
  Calling \<^verbatim>\<open>t.Kind()\<close> on the nil \<^verbatim>\<open>reflect.Type\<close> is a nil-pointer dereference; it is
  the only way the functions of \<^verbatim>\<open>query.go\<close> panic.
\<close>

datatype panic = NilPointerDereference

section \<open>Options\<close>

text \<open>
  Modelled from the spec: the \<^verbatim>\<open>Option\<close> interface, the \<^verbatim>\<open>OptionType\<close> type and its
  constants \<^verbatim>\<open>optionTypeOperationName\<close> and \<^verbatim>\<open>OptionTypeOperationDirective\<close> are
  declared outside \<^verbatim>\<open>query.go\<close>. The spec describes an option as a tagged value with a
  discriminant (operation-name, operation-directive, or unrecognized) and a string
  payload; \<open>OptionType\<close> is \<^verbatim>\<open>option.Type()\<close> and \<open>String\<close> is \<^verbatim>\<open>option.String()\<close>.
\<close>

datatype optionType =
    optionTypeOperationName
  | OptionTypeOperationDirective
  | OtherOptionType string

record Option =
  OptionType :: optionType
  String :: string

text \<open>The error made by \<^verbatim>\<open>fmt.Errorf("invalid query option type: %s", option.Type())\<close>.\<close>

datatype error = InvalidQueryOptionType optionType

record constructOptionsOutput =
  operationName :: string
  operationDirectives :: "string list"

text \<open>\<^verbatim>\<open>strings.Join\<close>.\<close>

fun Join :: "string list \<Rightarrow> string \<Rightarrow> string" where
  "Join [] sep = []"
| "Join [x] sep = x"
| "Join (x # y # ys) sep = x @ sep @ Join (y # ys) sep"

definition OperationDirectivesString :: "constructOptionsOutput \<Rightarrow> string" where
  "OperationDirectivesString coo =
     (let operationDirectivesStr = Join (operationDirectives coo) '' '' in
      if operationDirectivesStr \<noteq> [] then '' '' @ operationDirectivesStr @ '' ''
      else [])"

text \<open>
  The loop of \<^verbatim>\<open>constructOptions\<close>, with \<open>output\<close> the configuration built so far;
  \<open>Inl\<close> is the \<^verbatim>\<open>(nil, err)\<close> return.
\<close>

fun constructOptionsLoop ::
  "constructOptionsOutput \<Rightarrow> Option list \<Rightarrow> error + constructOptionsOutput" where
  "constructOptionsLoop output [] = Inr output"
| "constructOptionsLoop output (option # options) =
     (case OptionType option of
        optionTypeOperationName \<Rightarrow>
          constructOptionsLoop (output\<lparr>operationName := String option\<rparr>) options
      | OptionTypeOperationDirective \<Rightarrow>
          constructOptionsLoop
            (output\<lparr>operationDirectives := operationDirectives output @ [String option]\<rparr>)
            options
      | OtherOptionType s \<Rightarrow> Inl (InvalidQueryOptionType (OptionType option)))"

definition constructOptions :: "Option list \<Rightarrow> error + constructOptionsOutput" where
  "constructOptions options =
     constructOptionsLoop \<lparr>operationName = [], operationDirectives = []\<rparr> options"

section \<open>Type signatures of variables\<close>

text \<open>
  \<^verbatim>\<open>writeArgumentType(w, t, value)\<close>; \<open>w\<close> is the content of the buffer, the result is its
  content afterwards.
\<close>

definition writeNamedType :: "string \<Rightarrow> string \<Rightarrow> bool \<Rightarrow> string" where
  "writeNamedType w name value =
     (let name = (if name = ''string'' then ''ID'' else name);
          w = w @ name
      in if value then w @ ''!'' else w)"

fun writeArgumentType :: "string \<Rightarrow> gotype \<Rightarrow> bool \<Rightarrow> string" where
  "writeArgumentType w (Ptr t) value = writeArgumentType w t False"
| "writeArgumentType w (Slice t) value =
     (let w = writeArgumentType (w @ ''['') t True @ '']''
      in if value then w @ ''!'' else w)"
| "writeArgumentType w (Array n t) value =
     (let w = writeArgumentType (w @ ''['') t True @ '']''
      in if value then w @ ''!'' else w)"
| "writeArgumentType w (Struct name unm fs) value = writeNamedType w name value"
| "writeArgumentType w (Basic name) value = writeNamedType w name value"

text \<open>
  The second loop of \<^verbatim>\<open>queryArguments\<close>, over the sorted keys; \<open>Inl\<close> is the panic of
  \<^verbatim>\<open>t.Kind()\<close> on the type of a nil value.
\<close>

fun writeArguments :: "string \<Rightarrow> variables \<Rightarrow> string list \<Rightarrow> panic + string" where
  "writeArguments buf variables [] = Inr buf"
| "writeArguments buf variables (k # keys) =
     (let buf = buf @ ''$'';
          buf = buf @ k;
          buf = buf @ '':''
      in case index variables k of
           None \<Rightarrow> Inl NilPointerDereference
         | Some t \<Rightarrow> writeArguments (writeArgumentType buf t True) variables keys)"

definition queryArguments :: "variables \<Rightarrow> panic + string" where
  "queryArguments variables =
     (let keys = map fst variables;
          keys = sort keys
      in writeArguments [] variables keys)"

section \<open>Selection sets\<close>

text \<open>
  \<^verbatim>\<open>writeQuery(w, t, inline)\<close>, with the buffer passed through. \<open>writeFields w i fs\<close> is the
  \<^verbatim>\<open>for\<close> loop from index \<open>i\<close> on, \<open>fs\<close> being the fields \<^verbatim>\<open>t.Field(i)\<close>, ... still to
  be visited. The \<^verbatim>\<open>switch\<close> has no default: an array or a type of any other kind
  writes nothing.
\<close>

fun writeQuery :: "string \<Rightarrow> gotype \<Rightarrow> bool \<Rightarrow> string"
and writeFields :: "string \<Rightarrow> nat \<Rightarrow> field list \<Rightarrow> string" where
  "writeQuery w (Ptr t) inline = writeQuery w t False"
| "writeQuery w (Slice t) inline = writeQuery w t False"
| "writeQuery w (Struct name unm fs) inline =
     (if unm then w
      else
        let w = (if \<not> inline then w @ ''{'' else w);
            w = writeFields w 0 fs
        in if \<not> inline then w @ ''}'' else w)"
| "writeQuery w (Array n t) inline = w"
| "writeQuery w (Basic name) inline = w"
| "writeFields w i [] = w"
| "writeFields w i (Field name t anonymous tag # fs) =
     (let w = (if i \<noteq> 0 then w @ '','' else w);
          inlineField = (anonymous \<and> tag = None);
          w = (if \<not> inlineField
               then (case tag of Some v \<Rightarrow> w @ v | None \<Rightarrow> w @ name)
               else w);
          w = writeQuery w t inlineField
      in writeFields w (Suc i) fs)"

definition query :: "val \<Rightarrow> panic + string" where
  "query v = (case v of None \<Rightarrow> Inl NilPointerDereference
                      | Some t \<Rightarrow> Inr (writeQuery [] t False))"

section \<open>Assembling the operation text\<close>

text \<open>
  The three constructors return Go's pair \<^verbatim>\<open>(string, error)\<close>, \<open>None\<close> being the
  \<^verbatim>\<open>nil\<close> error, or panic (\<open>Inl\<close>). \<^verbatim>\<open>query(v)\<close> runs first, then the options are
  resolved, and \<^verbatim>\<open>queryArguments\<close> runs only when there are variables.
\<close>

definition constructQuery ::
  "val \<Rightarrow> variables \<Rightarrow> Option list \<Rightarrow> panic + (string \<times> error option)" where
  "constructQuery v variables options =
     (case query v of
        Inl p \<Rightarrow> Inl p
      | Inr query' \<Rightarrow>
          (case constructOptions options of
             Inl err \<Rightarrow> Inr ([], Some err)
           | Inr optionsOutput \<Rightarrow>
               if length variables > 0 then
                 (case queryArguments variables of
                    Inl p \<Rightarrow> Inl p
                  | Inr args \<Rightarrow>
                      Inr (''query '' @ operationName optionsOutput @ ''('' @ args @ '')''
                             @ OperationDirectivesString optionsOutput @ query', None))
               else if operationName optionsOutput = []
                       \<and> length (operationDirectives optionsOutput) = 0 then
                 Inr (query', None)
               else
                 Inr (''query '' @ operationName optionsOutput
                        @ OperationDirectivesString optionsOutput @ query', None)))"

definition constructMutation ::
  "val \<Rightarrow> variables \<Rightarrow> Option list \<Rightarrow> panic + (string \<times> error option)" where
  "constructMutation v variables options =
     (case query v of
        Inl p \<Rightarrow> Inl p
      | Inr query' \<Rightarrow>
          (case constructOptions options of
             Inl err \<Rightarrow> Inr ([], Some err)
           | Inr optionsOutput \<Rightarrow>
               if length variables > 0 then
                 (case queryArguments variables of
                    Inl p \<Rightarrow> Inl p
                  | Inr args \<Rightarrow>
                      Inr (''mutation '' @ operationName optionsOutput @ ''('' @ args @ '')''
                             @ OperationDirectivesString optionsOutput @ query', None))
               else if operationName optionsOutput = []
                       \<and> length (operationDirectives optionsOutput) = 0 then
                 Inr (''mutation'' @ query', None)
               else
                 Inr (''mutation '' @ operationName optionsOutput
                        @ OperationDirectivesString optionsOutput @ query', None)))"

definition constructSubscription ::
  "val \<Rightarrow> variables \<Rightarrow> Option list \<Rightarrow> panic + (string \<times> error option)" where
  "constructSubscription v variables options =
     (case query v of
        Inl p \<Rightarrow> Inl p
      | Inr query' \<Rightarrow>
          (case constructOptions options of
             Inl err \<Rightarrow> Inr ([], Some err)
           | Inr optionsOutput \<Rightarrow>
               if length variables > 0 then
                 (case queryArguments variables of
                    Inl p \<Rightarrow> Inl p
                  | Inr args \<Rightarrow>
                      Inr (''subscription '' @ operationName optionsOutput @ ''('' @ args
                             @ '')'' @ OperationDirectivesString optionsOutput @ query', None))
               else if operationName optionsOutput = []
                       \<and> length (operationDirectives optionsOutput) = 0 then
                 Inr (''subscription'' @ query', None)
               else
                 Inr (''subscription '' @ operationName optionsOutput
                        @ OperationDirectivesString optionsOutput @ query', None)))"

section \<open>Notions used to state the properties\<close>

text \<open>The shape \<^verbatim>\<open>struct { Name string; Age *int }\<close>.\<close>

definition nameAgeShape :: gotype where
  "nameAgeShape =
     Struct [] False
       [Field ''Name'' (Basic ''string'') False None,
        Field ''Age'' (Ptr (Basic ''int'')) False None]"

text \<open>
  The type left when the pointers and slices around a type are removed, which is how far
  \<^verbatim>\<open>writeQuery\<close> looks through wrappers, and whether a type is a record.
\<close>

fun unwrapped :: "gotype \<Rightarrow> gotype" where
  "unwrapped (Ptr t) = unwrapped t"
| "unwrapped (Slice t) = unwrapped t"
| "unwrapped t = t"

fun isStruct :: "gotype \<Rightarrow> bool" where
  "isStruct (Struct name unm fs) = True"
| "isStruct t = False"

fun isPtr :: "gotype \<Rightarrow> bool" where
  "isPtr (Ptr t) = True"
| "isPtr t = False"

text \<open>
  A Go type name is an identifier (or empty, for an unnamed type) and so holds no
  \<^verbatim>\<open>!\<close>; \<open>goNames t\<close> says so of the names \<^verbatim>\<open>writeArgumentType\<close> can reach in
  \<open>t\<close>.
\<close>

fun goNames :: "gotype \<Rightarrow> bool" where
  "goNames (Ptr t) = goNames t"
| "goNames (Slice t) = goNames t"
| "goNames (Array n t) = goNames t"
| "goNames (Struct name unm fs) = (CHR ''!'' \<notin> set name)"
| "goNames (Basic name) = (CHR ''!'' \<notin> set name)"

definition endsWithBang :: "string \<Rightarrow> bool" where
  "endsWithBang s = (s \<noteq> [] \<and> last s = CHR ''!'')"

text \<open>
  What one round of the field loop of \<^verbatim>\<open>writeQuery\<close> has written when it recurses into
  the field's type: the separator unless the index is 0, then the display name unless the
  field is inlined.
\<close>

definition inlineField :: "field \<Rightarrow> bool" where
  "inlineField f = (Anonymous f \<and> Tag f = None)"

definition displayName :: "field \<Rightarrow> string" where
  "displayName f = (case Tag f of Some v \<Rightarrow> v | None \<Rightarrow> Name f)"

definition fieldPrefix :: "nat \<Rightarrow> field \<Rightarrow> string" where
  "fieldPrefix i f =
     (if i \<noteq> 0 then '','' else []) @ (if inlineField f then [] else displayName f)"

section \<open>The buffer is only appended to\<close>

lemma writeFields_Cons_prefix:
  "writeFields w i (f # fs) =
   writeFields (writeQuery (w @ fieldPrefix i f) (Type f) (inlineField f)) (Suc i) fs"
  by (cases f) (simp add: Let_def fieldPrefix_def inlineField_def displayName_def
                     split: option.splits)

lemma writeQuery_prefix:
  "writeQuery (w' @ w) t inline = w' @ writeQuery w t inline"
  "writeFields (w' @ w) i fs = w' @ writeFields w i fs"
proof (induction w t inline and w i fs arbitrary: w' and w' rule: writeQuery_writeFields.induct)
  case (3 w name unm fs inline)
  show ?case
  proof (cases unm)
    case True
    then show ?thesis by simp
  next
    case False
    have "writeFields (w' @ (if \<not> inline then w @ ''{'' else w)) 0 fs =
          w' @ writeFields (if \<not> inline then w @ ''{'' else w) 0 fs"
      by (rule "3.IH"[OF False refl])
    with False show ?thesis by (cases inline) (simp_all add: Let_def)
  qed
next
  case (7 w i name t anonymous tag fs)
  let ?f = "Field name t anonymous tag"
  define b where "b = w @ fieldPrefix i ?f"
  have b: "b = (if \<not> (anonymous \<and> tag = None)
                then case tag of None \<Rightarrow> (if i \<noteq> 0 then w @ '','' else w) @ name
                               | Some v \<Rightarrow> (if i \<noteq> 0 then w @ '','' else w) @ v
                else if i \<noteq> 0 then w @ '','' else w)"
    by (simp add: b_def fieldPrefix_def inlineField_def displayName_def split: option.splits)
  have q: "writeQuery (w' @ b) t (anonymous \<and> tag = None) =
           w' @ writeQuery b t (anonymous \<and> tag = None)"
    unfolding b by (rule "7.IH"(1)[OF refl refl refl])
  have r: "writeFields (w' @ writeQuery b t (anonymous \<and> tag = None)) (Suc i) fs =
           w' @ writeFields (writeQuery b t (anonymous \<and> tag = None)) (Suc i) fs"
    unfolding b by (rule "7.IH"(2)[OF refl refl refl refl])
  show ?case
    using q r by (simp add: writeFields_Cons_prefix inlineField_def b_def del: writeFields.simps)
qed simp_all

lemma writeQuery_append: "writeQuery w t inline = w @ writeQuery [] t inline"
  using writeQuery_prefix(1)[of w "[]" t inline] by simp

lemma writeFields_append: "writeFields w i fs = w @ writeFields [] i fs"
  using writeQuery_prefix(2)[of w "[]" i fs] by simp

lemma writeNamedType_prefix:
  "writeNamedType (w' @ w) name value = w' @ writeNamedType w name value"
  by (simp add: writeNamedType_def Let_def)

lemma writeArgumentType_prefix:
  "writeArgumentType (w' @ w) t value = w' @ writeArgumentType w t value"
  by (induction w t "value" arbitrary: w' rule: writeArgumentType.induct)
     (simp_all add: Let_def writeNamedType_prefix)

lemma writeArgumentType_append:
  "writeArgumentType w t value = w @ writeArgumentType [] t value"
  using writeArgumentType_prefix[of w "[]" t "value"] by simp

section \<open>The field loop\<close>

text \<open>The index of the loop matters only through the test \<^verbatim>\<open>i != 0\<close>.\<close>

lemma writeFields_index:
  "i \<noteq> 0 \<Longrightarrow> j \<noteq> 0 \<Longrightarrow> writeFields w i fs = writeFields w j fs"
proof (induction fs arbitrary: w i j)
  case Nil
  then show ?case by simp
next
  case (Cons f fs)
  have "fieldPrefix i f = fieldPrefix j f"
    using Cons.prems by (simp add: fieldPrefix_def)
  then show ?case
    using Cons.IH[of "Suc i" "Suc j"]
    by (simp add: writeFields_Cons_prefix del: writeFields.simps)
qed

lemma writeFields_app:
  "writeFields w i (xs @ ys) = writeFields (writeFields w i xs) (i + length xs) ys"
proof (induction xs arbitrary: w i)
  case Nil
  then show ?case by simp
next
  case (Cons f xs)
  show ?case by (simp add: writeFields_Cons_prefix Cons.IH del: writeFields.simps)
qed

lemma writeFields_inlined_struct:
  assumes "es \<noteq> []"
  shows "writeFields w i (Field name (Struct sname False es) True None # post) =
         writeFields w i (es @ post)"
proof -
  let ?w1 = "if i \<noteq> 0 then w @ '','' else w"
  have lhs: "writeFields w i (Field name (Struct sname False es) True None # post) =
             writeFields (writeFields ?w1 0 es) (Suc i) post"
    by (simp add: writeFields_Cons_prefix fieldPrefix_def inlineField_def del: writeFields.simps)
  have first: "writeFields ?w1 0 es = writeFields w i es"
  proof (cases es)
    case Nil
    with assms show ?thesis by simp
  next
    case (Cons e es')
    show ?thesis
      unfolding Cons
      by (simp add: writeFields_Cons_prefix fieldPrefix_def writeFields_index[of "Suc i" "Suc 0"]
               del: writeFields.simps)
  qed
  have "writeFields w i (es @ post) = writeFields (writeFields w i es) (i + length es) post"
    by (rule writeFields_app)
  also have "\<dots> = writeFields (writeFields w i es) (Suc i) post"
    using assms by (intro writeFields_index) simp_all
  finally show ?thesis using lhs first by simp
qed

section \<open>Sorted keys and lookups\<close>

text \<open>
  \<^verbatim>\<open>sort.Strings\<close> orders Go strings byte by byte, a proper prefix first; so does the
  order on \<open>string\<close> used by \<open>sort\<close> here.
\<close>

lemma string_order_bytewise:
  "(''B''::string) < ''a''" "(''a''::string) < ''ab''" "(''ab''::string) < ''b''"
  by simp_all

lemma writeArguments_index_cong:
  "(\<And>k. k \<in> set keys \<Longrightarrow> index variables k = index variables' k) \<Longrightarrow>
   writeArguments buf variables keys = writeArguments buf variables' keys"
  by (induction keys arbitrary: buf) (simp_all add: Let_def split: option.splits)

lemma index_set_cong:
  assumes "distinct (map fst variables)" "distinct (map fst variables')"
    and "set variables = set variables'"
  shows "index variables k = index variables' k"
proof -
  have "map_of variables = map_of variables'"
    using assms by (simp add: map_of_inject_set)
  then show ?thesis by (simp add: index_def)
qed

lemma sort_keys_set_cong:
  assumes "distinct (map fst variables)" "distinct (map fst variables')"
    and "set variables = set variables'"
  shows "sort (map fst variables) = sort (map fst variables')"
proof (rule sorted_distinct_set_unique)
  show "set (sort (map fst variables)) = set (sort (map fst variables'))"
    using assms(3) by simp
qed (simp_all add: assms)

lemma map_insort_key: "map f (insort_key f x ys) = insort (f x) (map f ys)"
  by (induction ys) simp_all

lemma map_sort_key: "map f (sort_key f xs) = sort (map f xs)"
  by (induction xs) (simp_all add: map_insort_key)

lemma writeArguments_entries:
  assumes "distinct (map fst variables)"
  shows "set es \<subseteq> set variables \<Longrightarrow> \<forall>(k, v) \<in> set es. v \<noteq> None \<Longrightarrow>
     writeArguments buf variables (map fst es) =
     Inr (buf @ concat (map (\<lambda>(k, v). ''$'' @ k @ '':'' @ writeArgumentType [] (the v) True) es))"
proof (induction es arbitrary: buf)
  case Nil
  then show ?case by simp
next
  case (Cons e es)
  obtain k v where e: "e = (k, v)" by (cases e)
  from Cons.prems e obtain t where v: "v = Some t" by auto
  have "(k, Some t) \<in> set variables" using Cons.prems e v by simp
  then have "map_of variables k = Some (Some t)"
    using assms by simp
  then have i: "index variables k = Some t" by (simp add: index_def)
  have "writeArguments (writeArgumentType (buf @ ''$'' @ k @ '':'') t True) variables (map fst es) =
        Inr (writeArgumentType (buf @ ''$'' @ k @ '':'') t True @
             concat (map (\<lambda>(k, v). ''$'' @ k @ '':'' @ writeArgumentType [] (the v) True) es))"
    using Cons.prems by (intro Cons.IH) simp_all
  then show ?case
    using i writeArgumentType_prefix[of "buf @ ''$'' @ k @ '':''" "[]" t True]
    by (simp add: e v Let_def)
qed

section \<open>Facts about signatures, roots and options\<close>

lemma no_bang_not_endsWithBang: "CHR ''!'' \<notin> set s \<Longrightarrow> \<not> endsWithBang s"
proof
  assume a: "CHR ''!'' \<notin> set s" and b: "endsWithBang s"
  from b have "s \<noteq> []" "last s = CHR ''!''" by (simp_all add: endsWithBang_def)
  then have "CHR ''!'' \<in> set s" using last_in_set[of s] by simp
  with a show False by simp
qed

lemma writeArgumentType_optional_no_bang:
  "goNames t \<Longrightarrow> \<not> endsWithBang (writeArgumentType [] t False)"
proof (induction "w::string" t "v::bool" rule: writeArgumentType.induct)
  case (4 w name unm fs v)
  then show ?case
    by (simp add: writeNamedType_def no_bang_not_endsWithBang)
next
  case (5 w name v)
  then show ?case
    by (simp add: writeNamedType_def no_bang_not_endsWithBang)
qed (simp_all add: endsWithBang_def Let_def)

lemma writeArgumentType_required:
  "\<not> isPtr t \<Longrightarrow> writeArgumentType w t True = writeArgumentType w t False @ ''!''"
  by (cases t) (simp_all add: Let_def writeNamedType_def)

lemma writeQuery_non_record:
  "\<not> isStruct (unwrapped t) \<Longrightarrow> writeQuery w t inline = w"
  by (induction t arbitrary: inline) simp_all

lemma constructOptionsLoop_invalid:
  "\<exists>option \<in> set options. OptionType option \<noteq> optionTypeOperationName
       \<and> OptionType option \<noteq> OptionTypeOperationDirective \<Longrightarrow>
   \<exists>ty \<in> OptionType ` set options. ty \<noteq> optionTypeOperationName \<and> ty \<noteq> OptionTypeOperationDirective \<and>
     constructOptionsLoop out options = Inl (InvalidQueryOptionType ty)"
proof (induction options arbitrary: out)
  case Nil
  then show ?case by simp
next
  case (Cons option options)
  show ?case
  proof (cases "OptionType option")
    case optionTypeOperationName
    with Cons.prems have "\<exists>option \<in> set options. OptionType option \<noteq> optionTypeOperationName
       \<and> OptionType option \<noteq> OptionTypeOperationDirective" by auto
    from Cons.IH[OF this] show ?thesis using optionTypeOperationName by auto
  next
    case OptionTypeOperationDirective
    with Cons.prems have "\<exists>option \<in> set options. OptionType option \<noteq> optionTypeOperationName
       \<and> OptionType option \<noteq> OptionTypeOperationDirective" by auto
    from Cons.IH[OF this] show ?thesis using OptionTypeOperationDirective by auto
  next
    case (OtherOptionType s)
    then show ?thesis by simp
  qed
qed

section \<open>Embedded records\<close>

text \<open>
  Two limits of inlining. A record embedded through a pointer is not inlined:
  \<^verbatim>\<open>writeQuery\<close> passes \<^verbatim>\<open>false\<close> when it unwraps the pointer, so
  \<^verbatim>\<open>struct { A string; *E }\<close> with \<^verbatim>\<open>type E struct { B Int }\<close> gives \<^verbatim>\<open>{A,{B}}\<close>. And
  whether a pointer to the parent implements \<^verbatim>\<open>json.Unmarshaler\<close> is a property of the
  parent type as a whole (methods are promoted from embedded fields), so a parent and its
  flattened form need not agree on it; when they differ, one of them writes nothing.
\<close>

lemma embed_through_pointer_not_inlined:
  "writeQuery []
     (Struct [] False
        [Field ''A'' (Basic ''string'') False None,
         Field ''E'' (Ptr (Struct ''E'' False [Field ''B'' (Basic ''Int'') False None]))
           True None]) False
   = ''{A,{B}}''"
  by simp

lemma embed_capability_differs:
  "writeQuery []
     (Struct [] True
        [Field ''Opaque'' (Struct ''Opaque'' True []) True None,
         Field ''E''
           (Struct ''E'' False
              [Field ''OpaqueV'' (Struct ''OpaqueV'' True []) True None,
               Field ''OpaqueW'' (Struct ''OpaqueW'' True []) True None]) True None]) False
   = [] \<and>
   writeQuery []
     (Struct [] False
        [Field ''Opaque'' (Struct ''Opaque'' True []) True None,
         Field ''OpaqueV'' (Struct ''OpaqueV'' True []) True None,
         Field ''OpaqueW'' (Struct ''OpaqueW'' True []) True None]) False
   = ''{,,}''"
  by simp

text \<open>
  C3, as stated, fails: a parent \<^verbatim>\<open>struct { A string; E }\<close> with \<^verbatim>\<open>type E struct{}\<close>
  embedded gives \<^verbatim>\<open>{A,}\<close>, because the separator of the embedded field is written before
  its (empty) field list, while the parent with the zero fields of \<open>E\<close> spliced in,
  \<^verbatim>\<open>struct { A string }\<close>, gives \<^verbatim>\<open>{A}\<close>.
\<close>

theorem embed_empty_record_counterexample:
  "writeQuery []
     (Struct [] False
        [Field ''A'' (Basic ''string'') False None,
         Field ''E'' (Struct ''E'' False []) True None]) False
   \<noteq>
   writeQuery []
     (Struct [] False ([Field ''A'' (Basic ''string'') False None] @ [] @ [])) False"
  by simp

text \<open>
  C3, amended: let \<open>E\<close> be a record with at least one field that does not carry the
  opaque-scalar capability, embedded by value (the field's type is \<open>E\<close> itself, not a
  pointer to it) and without name override at any position of a parent (after the fields
  \<open>pre\<close>, before the fields \<open>post\<close>). Let the flattened record have the fields of \<open>E\<close>
  spliced in at that position, and let it agree with the parent on the opaque-scalar
  capability (\<open>unm' = unm\<close>; in particular when neither carries it). Then the two have the
  same selection text. The two records are different types and may differ in name. This
  holds for every buffer content, for the root and for nested calls (\<open>inline\<close>), and whether
  or not the fields of \<open>E\<close> have name overrides.
\<close>

theorem embed_equals_flatten:
  assumes "es \<noteq> []" and "unm' = unm"
  shows "writeQuery w
           (Struct pname unm (pre @ Field name (Struct ename False es) True None # post))
           inline =
         writeQuery w (Struct pname' unm' (pre @ es @ post)) inline"
proof -
  have "writeFields b 0 (pre @ Field name (Struct ename False es) True None # post) =
        writeFields b 0 (pre @ es @ post)" for b
    by (simp only: writeFields_app[of b 0 pre] writeFields_inlined_struct[OF assms(1)])
  then show ?thesis using assms(2) by (simp add: Let_def)
qed

theorem embed_equals_flatten_witness:
  "[Field ''B'' (Basic ''Int'') False None, Field ''C'' (Basic ''Int'') False (Some ''c'')] \<noteq> []
   \<and> False = False
   \<and> writeQuery []
       (Struct ''P'' False
          ([Field ''A'' (Basic ''string'') False None]
           @ Field ''E''
               (Struct ''E'' False
                  [Field ''B'' (Basic ''Int'') False None,
                   Field ''C'' (Basic ''Int'') False (Some ''c'')]) True None
           # [Field ''D'' (Basic ''Int'') False None])) False
     = writeQuery []
       (Struct ''Flat'' False
          ([Field ''A'' (Basic ''string'') False None]
           @ [Field ''B'' (Basic ''Int'') False None,
              Field ''C'' (Basic ''Int'') False (Some ''c'')]
           @ [Field ''D'' (Basic ''Int'') False None])) False"
proof -
  have h: "[Field ''B'' (Basic ''Int'') False None,
            Field ''C'' (Basic ''Int'') False (Some ''c'')] \<noteq> []"
    by simp
  show ?thesis
    using h embed_equals_flatten [OF h refl, of "[]" "''P''" False
            "[Field ''A'' (Basic ''string'') False None]" "''E''" "''E''"
            "[Field ''D'' (Basic ''Int'') False None]" False "''Flat''"]
    by blast
qed

section \<open>The anonymous query\<close>

text \<open>
  C1, as stated, fails: with no variables, no operation name and no directives
  \<^verbatim>\<open>constructQuery\<close> returns the selection text alone (\<^verbatim>\<open>return query, nil\<close>), the
  shorthand form of an anonymous query, not the keyword \<^verbatim>\<open>query\<close> and a space followed
  by the selection text.
\<close>

theorem constructQuery_anonymous_counterexample:
  "constructQuery (Some nameAgeShape) [] []
   \<noteq> Inr (''query '' @ writeQuery [] nameAgeShape False, None)"
  by (simp add: constructQuery_def query_def constructOptions_def nameAgeShape_def)

text \<open>
  C1, amended: for every shape, \<^verbatim>\<open>constructQuery\<close> with an empty (or nil) variable map
  and no options returns exactly the selection text of the shape, which is what
  \<^verbatim>\<open>query\<close> returns, with no keyword before it, and the nil error.
\<close>

theorem constructQuery_anonymous:
  "query (Some t) = Inr (writeQuery [] t False) \<and>
   constructQuery (Some t) [] [] = Inr (writeQuery [] t False, None)"
  by (simp add: constructQuery_def query_def constructOptions_def)

section \<open>Field names\<close>

text \<open>
  C2 says that \<^verbatim>\<open>struct { Name string; Age *int }\<close> serializes to \<^verbatim>\<open>{name,age}\<close>, as
  the comment above \<^verbatim>\<open>query\<close> does (\<^verbatim>\<open>struct{Foo Int, BarBaz *Boolean}\<close> gives
  \<^verbatim>\<open>{foo,barBaz}\<close>). \<^verbatim>\<open>writeQuery\<close> writes \<^verbatim>\<open>f.Name\<close> as it is, so the text is
  \<^verbatim>\<open>{Name,Age}\<close>.
\<close>

theorem query_field_names_verbatim:
  "query (Some nameAgeShape) = Inr ''{Name,Age}''"
  by (simp add: query_def nameAgeShape_def)

section \<open>Pointers, slices and arrays in a shape\<close>

text \<open>
  C4, as stated, fails: the \<^verbatim>\<open>switch\<close> of \<^verbatim>\<open>writeQuery\<close> has the cases
  \<^verbatim>\<open>reflect.Ptr, reflect.Slice\<close> and \<^verbatim>\<open>reflect.Struct\<close> only, so for a fixed-length
  array of records nothing is written, while the record itself gives its selection set.
\<close>

theorem writeQuery_array_counterexample:
  "writeQuery [] (Array 2 nameAgeShape) False \<noteq> writeQuery [] nameAgeShape False"
  by (simp add: nameAgeShape_def)

text \<open>
  C4, amended: for every type \<open>t\<close>, the selection text of pointer-to-\<open>t\<close> and of
  slice-of-\<open>t\<close> is that of \<open>t\<close>, at the root and as the type of any field that is not
  inlined (a field that is named, or embedded with a name override).
\<close>

theorem writeQuery_unwraps_ptr_slice:
  "writeQuery w (Ptr t) False = writeQuery w t False \<and>
   writeQuery w (Slice t) False = writeQuery w t False \<and>
   (\<not> (anonymous \<and> tag = None) \<longrightarrow>
      writeFields w i (Field name (Ptr t) anonymous tag # fs) =
      writeFields w i (Field name t anonymous tag # fs) \<and>
      writeFields w i (Field name (Slice t) anonymous tag # fs) =
      writeFields w i (Field name t anonymous tag # fs))"
proof -
  have "writeFields w i (Field name (Ptr t) anonymous tag # fs) =
        writeFields w i (Field name t anonymous tag # fs)"
       "writeFields w i (Field name (Slice t) anonymous tag # fs) =
        writeFields w i (Field name t anonymous tag # fs)"
    if "\<not> (anonymous \<and> tag = None)"
    using that by (cases anonymous; cases tag; simp add: Let_def)+
  then show ?thesis by simp
qed

theorem writeQuery_unwraps_ptr_slice_witness:
  "\<not> (False \<and> (None :: string option) = None) \<and>
   writeQuery [] (Slice nameAgeShape) False = writeQuery [] nameAgeShape False \<and>
   writeFields [] 0 [Field ''People'' (Ptr nameAgeShape) False None] =
   writeFields [] 0 [Field ''People'' nameAgeShape False None]"
  using writeQuery_unwraps_ptr_slice
          [of "[]" nameAgeShape False None 0 "''People''" "[]"]
  by simp

section \<open>Opaque scalars\<close>

text \<open>
  C5: a record whose pointer type implements \<^verbatim>\<open>json.Unmarshaler\<close> leaves the buffer
  as it is, whatever its fields \<open>fs\<close> are, also behind a pointer or a slice. A field of
  such a type adds to the buffer the separator (unless it is the first field) and its
  display name (unless it is inlined, in which case no name is written for any type), and
  the loop goes on with the next field: no braces, none of \<open>fs\<close>. So a parent whose only
  field is a named field of such a type is the braces around the display name.
\<close>

theorem writeQuery_opaque_scalar:
  "writeQuery w (Struct name True fs) inline = w \<and>
   writeQuery w (Ptr (Struct name True fs)) inline = w \<and>
   writeQuery w (Slice (Struct name True fs)) inline = w \<and>
   writeFields w i (Field fname (Struct name True fs) anonymous tag # rest) =
     writeFields
       (w @ (if i \<noteq> 0 then '','' else [])
          @ (if anonymous \<and> tag = None then []
             else case tag of Some v \<Rightarrow> v | None \<Rightarrow> fname))
       (Suc i) rest \<and>
   writeQuery [] (Struct pname False [Field fname (Struct name True fs) False tag]) False =
     ''{'' @ (case tag of Some v \<Rightarrow> v | None \<Rightarrow> fname) @ ''}''"
  by (simp add: Let_def split: option.splits)

section \<open>The variable block\<close>

text \<open>
  C6: two variable maps with the same entries, enumerated in whatever orders, give the
  same result of \<^verbatim>\<open>queryArguments\<close> (the same text, or the same panic when a value is
  nil). The keys are visited in sorted order, and when no value is nil the text is the
  concatenation, over the entries sorted by name, of \<^verbatim>\<open>$\<close>, the name, \<^verbatim>\<open>:\<close> and the
  type signature of the value, with nothing between the entries.
\<close>

theorem queryArguments_order_independent:
  assumes "distinct (map fst variables)" and "distinct (map fst variables')"
    and "set variables = set variables'"
  shows "queryArguments variables = queryArguments variables' \<and>
         sorted (map fst (sort_key fst variables)) \<and>
         ((\<forall>(k, v) \<in> set variables. v \<noteq> None) \<longrightarrow>
          queryArguments variables =
            Inr (concat (map (\<lambda>(k, v). ''$'' @ k @ '':'' @ writeArgumentType [] (the v) True)
                             (sort_key fst variables))))"
proof (intro conjI impI)
  show "queryArguments variables = queryArguments variables'"
  proof -
    have "writeArguments [] variables (sort (map fst variables)) =
          writeArguments [] variables' (sort (map fst variables))"
      by (rule writeArguments_index_cong) (rule index_set_cong[OF assms])
    then show ?thesis
      by (simp add: queryArguments_def sort_keys_set_cong[OF assms])
  qed
  show "sorted (map fst (sort_key fst variables))" by (rule sorted_sort_key)
  assume nn: "\<forall>(k, v) \<in> set variables. v \<noteq> None"
  have "writeArguments [] variables (map fst (sort_key fst variables)) =
        Inr ([] @ concat (map (\<lambda>(k, v). ''$'' @ k @ '':'' @ writeArgumentType [] (the v) True)
                             (sort_key fst variables)))"
    using nn by (intro writeArguments_entries[OF assms(1)]) simp_all
  then show "queryArguments variables =
            Inr (concat (map (\<lambda>(k, v). ''$'' @ k @ '':'' @ writeArgumentType [] (the v) True)
                             (sort_key fst variables)))"
    by (simp add: queryArguments_def map_sort_key)
qed

theorem queryArguments_order_independent_witness:
  "distinct (map fst [(''b'', Some (Ptr (Basic ''Boolean''))), (''a'', Some (Basic ''Int''))]) \<and>
   distinct (map fst [(''a'', Some (Basic ''Int'')), (''b'', Some (Ptr (Basic ''Boolean'')))]) \<and>
   set [(''b'', Some (Ptr (Basic ''Boolean''))), (''a'', Some (Basic ''Int''))] =
   set [(''a'', Some (Basic ''Int'')), (''b'', Some (Ptr (Basic ''Boolean'')))] \<and>
   queryArguments [(''b'', Some (Ptr (Basic ''Boolean''))), (''a'', Some (Basic ''Int''))] =
   queryArguments [(''a'', Some (Basic ''Int'')), (''b'', Some (Ptr (Basic ''Boolean'')))]"
proof -
  have d1: "distinct (map fst [(''b'', Some (Ptr (Basic ''Boolean''))),
                               (''a'', Some (Basic ''Int''))])"
    by simp
  have d2: "distinct (map fst [(''a'', Some (Basic ''Int'')),
                               (''b'', Some (Ptr (Basic ''Boolean'')))])"
    by simp
  have e: "set [(''b'', Some (Ptr (Basic ''Boolean''))), (''a'', Some (Basic ''Int''))] =
           set [(''a'', Some (Basic ''Int'')), (''b'', Some (Ptr (Basic ''Boolean'')))]"
    by (simp add: insert_commute)
  show ?thesis
    using d1 d2 e queryArguments_order_independent [OF d1 d2 e] by blast
qed

section \<open>The required marker\<close>

text \<open>
  C7, as stated, fails in its example: \<^verbatim>\<open>queryArguments\<close> returns the declarations
  without parentheses, \<^verbatim>\<open>$a:Int!$b:Boolean\<close>, as its own comment says; the parentheses
  belong to the format strings of the three constructors.
\<close>

theorem queryArguments_parentheses_counterexample:
  "queryArguments [(''a'', Some (Basic ''Int'')), (''b'', Some (Ptr (Basic ''Boolean'')))]
   \<noteq> Inr ''($a:Int!$b:Boolean)''"
  by (simp add: queryArguments_def index_def writeNamedType_def)

text \<open>
  C7, amended: for every type \<open>t\<close> and every value of the flag, the signature of
  pointer-to-\<open>t\<close> is the signature of \<open>t\<close> with the flag off and does not end with
  \<^verbatim>\<open>!\<close> (type names being Go identifiers), and for every \<open>t\<close> that is not a pointer the
  signature with the flag on ends with \<^verbatim>\<open>!\<close>. The map with \<open>a\<close> a value of a type named
  \<^verbatim>\<open>Int\<close> and \<open>b\<close> a pointer to a type named \<^verbatim>\<open>Boolean\<close> gives
  \<^verbatim>\<open>$a:Int!$b:Boolean\<close> from \<^verbatim>\<open>queryArguments\<close>, which \<^verbatim>\<open>constructQuery\<close> puts
  between parentheses.
\<close>

theorem writeArgumentType_required_marker:
  "(goNames t \<longrightarrow> \<not> endsWithBang (writeArgumentType [] (Ptr t) value)) \<and>
   (\<not> isPtr t \<longrightarrow> endsWithBang (writeArgumentType [] t True)) \<and>
   writeArgumentType w (Ptr t) value = writeArgumentType w t False \<and>
   queryArguments [(''a'', Some (Basic ''Int'')), (''b'', Some (Ptr (Basic ''Boolean'')))]
     = Inr ''$a:Int!$b:Boolean'' \<and>
   constructQuery (Some s)
       [(''a'', Some (Basic ''Int'')), (''b'', Some (Ptr (Basic ''Boolean'')))] []
     = Inr (''query ($a:Int!$b:Boolean)'' @ writeQuery [] s False, None)"
proof -
  have q: "queryArguments [(''a'', Some (Basic ''Int'')), (''b'', Some (Ptr (Basic ''Boolean'')))]
     = Inr ''$a:Int!$b:Boolean''"
    by (simp add: queryArguments_def index_def writeNamedType_def)
  have "constructQuery (Some s)
       [(''a'', Some (Basic ''Int'')), (''b'', Some (Ptr (Basic ''Boolean'')))] []
     = Inr (''query ($a:Int!$b:Boolean)'' @ writeQuery [] s False, None)"
    by (simp add: constructQuery_def query_def constructOptions_def q
                  OperationDirectivesString_def)
  moreover have "\<not> isPtr t \<Longrightarrow> endsWithBang (writeArgumentType [] t True)"
    by (simp add: writeArgumentType_required endsWithBang_def)
  ultimately show ?thesis
    using q by (simp add: writeArgumentType_optional_no_bang)
qed

theorem writeArgumentType_required_marker_witness:
  "goNames (Basic ''Boolean'') \<and>
   \<not> endsWithBang (writeArgumentType [] (Ptr (Basic ''Boolean'')) True) \<and>
   \<not> isPtr (Basic ''Boolean'') \<and>
   endsWithBang (writeArgumentType [] (Basic ''Boolean'') True)"
  using writeArgumentType_required_marker [of "Basic ''Boolean''" True]
  by simp

section \<open>The string type\<close>

text \<open>
  C8: wherever \<^verbatim>\<open>writeArgumentType\<close> reaches the type named \<^verbatim>\<open>string\<close>, with whatever
  buffer and flag, it writes \<^verbatim>\<open>ID\<close> where the name would be and the marker as for any
  other name, which is what it writes for a type named \<^verbatim>\<open>ID\<close>. So the signature of
  \<^verbatim>\<open>string\<close> as a required type is \<^verbatim>\<open>ID!\<close>, a string variable \<open>id\<close> is declared as
  \<^verbatim>\<open>$id:ID!\<close>, and with the operation name \<^verbatim>\<open>GetThing\<close> the query starts with
  \<^verbatim>\<open>query GetThing($id:ID!)\<close>.
\<close>

theorem writeArgumentType_string_is_ID:
  "writeArgumentType w (Basic ''string'') value = w @ ''ID'' @ (if value then ''!'' else []) \<and>
   writeArgumentType w (Basic ''string'') value = writeArgumentType w (Basic ''ID'') value \<and>
   writeArgumentType [] (Basic ''string'') True = ''ID!'' \<and>
   queryArguments [(''id'', Some (Basic ''string''))] = Inr ''$id:ID!'' \<and>
   constructQuery (Some s) [(''id'', Some (Basic ''string''))]
       [\<lparr>OptionType = optionTypeOperationName, String = ''GetThing''\<rparr>]
     = Inr (''query GetThing($id:ID!)'' @ writeQuery [] s False, None)"
proof -
  have q: "queryArguments [(''id'', Some (Basic ''string''))] = Inr ''$id:ID!''"
    by (simp add: queryArguments_def index_def writeNamedType_def)
  have "constructQuery (Some s) [(''id'', Some (Basic ''string''))]
       [\<lparr>OptionType = optionTypeOperationName, String = ''GetThing''\<rparr>]
     = Inr (''query GetThing($id:ID!)'' @ writeQuery [] s False, None)"
    by (simp add: constructQuery_def query_def constructOptions_def q
                  OperationDirectivesString_def)
  then show ?thesis using q by (simp add: writeNamedType_def)
qed

section \<open>Roots that are not records\<close>

text \<open>
  C9, as stated, fails: \<^verbatim>\<open>query.go\<close> has no error for a root that is not a record. For
  the root \<^verbatim>\<open>string\<close>, \<^verbatim>\<open>writeQuery\<close> writes nothing and \<^verbatim>\<open>constructMutation\<close>
  returns the text \<^verbatim>\<open>mutation\<close> with the nil error.
\<close>

theorem constructMutation_scalar_root_counterexample:
  "constructMutation (Some (Basic ''string'')) [] [] = Inr (''mutation'', None)"
  by (simp add: constructMutation_def query_def constructOptions_def)

text \<open>
  C9, amended: for every root shape that is not a record once the pointers and slices
  around it are removed, the selection text is empty and the constructors return the nil
  error: without variables and options, \<^verbatim>\<open>constructQuery\<close> returns the empty text,
  \<^verbatim>\<open>constructMutation\<close> the text \<^verbatim>\<open>mutation\<close> and \<^verbatim>\<open>constructSubscription\<close> the text
  \<^verbatim>\<open>subscription\<close>.
\<close>

theorem non_record_root_empty_selection:
  assumes "\<not> isStruct (unwrapped t)"
  shows "query (Some t) = Inr [] \<and>
         constructQuery (Some t) [] [] = Inr ([], None) \<and>
         constructMutation (Some t) [] [] = Inr (''mutation'', None) \<and>
         constructSubscription (Some t) [] [] = Inr (''subscription'', None)"
  using writeQuery_non_record[OF assms, of "[]" False]
  by (simp add: constructQuery_def constructMutation_def constructSubscription_def
                query_def constructOptions_def)

theorem non_record_root_empty_selection_witness:
  "\<not> isStruct (unwrapped (Ptr (Slice (Basic ''string'')))) \<and>
   query (Some (Ptr (Slice (Basic ''string'')))) = Inr [] \<and>
   constructQuery (Some (Ptr (Slice (Basic ''string'')))) [] [] = Inr ([], None) \<and>
   constructMutation (Some (Ptr (Slice (Basic ''string'')))) [] [] = Inr (''mutation'', None) \<and>
   constructSubscription (Some (Ptr (Slice (Basic ''string'')))) [] [] =
     Inr (''subscription'', None)"
proof -
  have h: "\<not> isStruct (unwrapped (Ptr (Slice (Basic ''string''))))" by simp
  show ?thesis
    using h non_record_root_empty_selection [OF h] by blast
qed

section \<open>Invalid options\<close>

text \<open>
  C10, as stated, fails: each constructor calls \<^verbatim>\<open>query(v)\<close> before it reads the options
  (lines 44, 63, 80), so for the nil shape it panics in \<^verbatim>\<open>t.Kind()\<close> and returns neither
  the error nor the empty text, whatever the options are.
\<close>

theorem construct_invalid_option_nil_shape_counterexample:
  "constructQuery None []
     [\<lparr>OptionType = OtherOptionType ''operation_unknown'', String = ''x''\<rparr>]
   = Inl NilPointerDereference"
  by (simp add: constructQuery_def query_def)

text \<open>
  C10, amended: when some option of the list has a discriminant that is neither
  operation-name nor operation-directive, each of the three constructors returns the empty
  text together with the invalid-option error made from such a discriminant of the list,
  for every variable map and for every shape on which the selection-set serializer returns:
  a value that is not nil and whose type is a finite tree (not self-referential). The
  selection set is serialized first, so the error is reached only after that has returned.
\<close>

theorem construct_invalid_option:
  assumes "\<exists>option \<in> set options. OptionType option \<noteq> optionTypeOperationName
       \<and> OptionType option \<noteq> OptionTypeOperationDirective"
  shows "\<exists>ty \<in> OptionType ` set options. ty \<noteq> optionTypeOperationName \<and> ty \<noteq> OptionTypeOperationDirective \<and>
     constructQuery (Some t) variables options = Inr ([], Some (InvalidQueryOptionType ty)) \<and>
     constructMutation (Some t) variables options = Inr ([], Some (InvalidQueryOptionType ty)) \<and>
     constructSubscription (Some t) variables options = Inr ([], Some (InvalidQueryOptionType ty))"
proof -
  from constructOptionsLoop_invalid[OF assms]
  obtain ty where "ty \<in> OptionType ` set options" "ty \<noteq> optionTypeOperationName" "ty \<noteq> OptionTypeOperationDirective"
    "constructOptions options = Inl (InvalidQueryOptionType ty)"
    unfolding constructOptions_def by blast
  then show ?thesis
    by (auto simp add: constructQuery_def constructMutation_def constructSubscription_def query_def)
qed

theorem construct_invalid_option_witness:
  "(\<exists>option \<in> set [\<lparr>OptionType = optionTypeOperationName, String = ''GetThing''\<rparr>,
                     \<lparr>OptionType = OtherOptionType ''operation_unknown'', String = ''x''\<rparr>].
      OptionType option \<noteq> optionTypeOperationName
      \<and> OptionType option \<noteq> OptionTypeOperationDirective) \<and>
   constructQuery (Some nameAgeShape) [(''id'', Some (Basic ''string''))]
     [\<lparr>OptionType = optionTypeOperationName, String = ''GetThing''\<rparr>,
      \<lparr>OptionType = OtherOptionType ''operation_unknown'', String = ''x''\<rparr>] =
   Inr ([], Some (InvalidQueryOptionType (OtherOptionType ''operation_unknown'')))"
proof -
  have h: "\<exists>option \<in> set [\<lparr>OptionType = optionTypeOperationName, String = ''GetThing''\<rparr>,
                     \<lparr>OptionType = OtherOptionType ''operation_unknown'', String = ''x''\<rparr>].
      OptionType option \<noteq> optionTypeOperationName
      \<and> OptionType option \<noteq> OptionTypeOperationDirective"
    by simp
  show ?thesis
    using h construct_invalid_option [OF h, of nameAgeShape "[(''id'', Some (Basic ''string''))]"]
    by auto
qed

end
